theory Spec2Isabelle
  imports Main
begin

section \<open>Exceptions and results\<close>

text \<open>
  Python exceptions are values. \<open>InvalidRecordingException\<close> carries the two fields its
  constructor stores, \<open>reason\<close> and \<open>recovery\<close>; the other constructors are the builtin
  exceptions the modelled code raises, catches or lets through. A call that may raise
  returns \<open>py_exception + 'a\<close>, \<open>Inl\<close> being the raised exception.
\<close>

datatype py_exception =
    InvalidRecordingException (reason: string) (recovery: string)
  | FileNotFoundError
  | NotADirectoryError
  | PermissionError
  | KeyError
  | ValueError
  | AssertionError
  | ImportError string
  | OtherException string

text \<open>
  \<open>InvalidRecordingException.__init__\<close>: the message handed to \<open>Exception\<close> is the reason,
  followed by a newline and the recovery when the recovery is not empty.
  \<open>__str__\<close> prefixes the class name.
\<close>

definition exception_message :: "string \<Rightarrow> string \<Rightarrow> string" where
  "exception_message rsn rcv = (if rcv \<noteq> [] then rsn @ [CHR 0x0A] @ rcv else rsn)"

definition exception_str :: "string \<Rightarrow> string \<Rightarrow> string" where
  "exception_str rsn rcv = ''InvalidRecordingException: '' @ exception_message rsn rcv"

text \<open>Sequencing of calls that may raise, and \<open>try: ... except E: ...\<close>.\<close>

definition and_then :: "py_exception + 'a \<Rightarrow> ('a \<Rightarrow> py_exception + 'b) \<Rightarrow> py_exception + 'b" where
  "and_then r f = (case r of Inl e \<Rightarrow> Inl e | Inr v \<Rightarrow> f v)"

definition try_except ::
  "py_exception + 'a \<Rightarrow> (py_exception \<Rightarrow> bool) \<Rightarrow> py_exception + 'a \<Rightarrow> py_exception + 'a" where
  "try_except body caught handler =
     (case body of Inl e \<Rightarrow> (if caught e then handler else Inl e) | Inr v \<Rightarrow> Inr v)"

section \<open>Recording types\<close>

datatype RecordingType = MOBILE | INVISIBLE | OLD_STYLE | NEW_STYLE

text \<open>The members of the enumeration, in definition order; \<open>x in RecordingType\<close> is membership.\<close>

definition RecordingType_members :: "RecordingType list" where
  "RecordingType_members = [MOBILE, INVISIBLE, OLD_STYLE, NEW_STYLE]"

section \<open>What the recording utilities consult\<close>

text \<open>
  \<open>recording_utils.py\<close> reaches the outside world through \<open>pathlib\<close> and through names it
  takes from modules that are not part of the verified sources: the constant
  \<open>VIDEO_EXTS\<close>, \<open>RecordingInfoFile.does_recording_contain_info_file\<close>,
  \<open>recording_info_utils.read_info_csv_file\<close> and \<open>recording_info_utils.read_info_json_file\<close>.
  They are parameters of the model: every function below takes an \<open>environment\<close>.
  The file-system queries are asked of the resolved path; the three readers are called
  with the path as the caller gave it. \<open>Path.resolve\<close>, \<open>Path.exists\<close>, \<open>Path.is_dir\<close> and
  \<open>Path.is_file\<close> are called outside any \<open>try\<close> and may raise themselves (\<open>ValueError\<close> for
  an embedded null character, \<open>PermissionError\<close>, other \<open>OSError\<close>s); like the readers,
  each returns its value or the exception it raises. The value of the JSON reader is
  never inspected, its type is left open.
\<close>

record 'j environment =
  resolve :: "string \<Rightarrow> py_exception + string"
  path_exists :: "string \<Rightarrow> py_exception + bool"
  path_is_dir :: "string \<Rightarrow> py_exception + bool"
  path_is_file :: "string \<Rightarrow> py_exception + bool"
  VIDEO_EXTS :: "string list"
  does_recording_contain_info_file :: "string \<Rightarrow> py_exception + bool"
  read_info_csv_file :: "string \<Rightarrow> py_exception + (string \<rightharpoonup> string)"
  read_info_json_file :: "string \<Rightarrow> py_exception + 'j"

subsection \<open>\<open>pathlib\<close>: the suffix of a path\<close>

text \<open>
  \<open>PurePath.name\<close> is the last component of the path, \<open>PurePath.suffix\<close> the part of the
  name from its last dot on, provided that dot is neither the first nor the last
  character of the name; otherwise the suffix is empty.
\<close>

definition path_name :: "string \<Rightarrow> string" where
  "path_name p = rev (takeWhile (\<lambda>c. c \<noteq> CHR ''/'') (rev p))"

definition path_suffix :: "string \<Rightarrow> string" where
  "path_suffix p =
     (let name = path_name p;
          after_dot = rev (takeWhile (\<lambda>c. c \<noteq> CHR ''.'') (rev name))
      in if after_dot \<noteq> [] \<and> length after_dot + 1 < length name
         then CHR ''.'' # after_dot else [])"

subsection \<open>Dictionaries\<close>

text \<open>\<open>d[k]\<close> raises \<open>KeyError\<close> for a missing key; \<open>k in d\<close> never raises.\<close>

definition dict_getitem :: "(string \<rightharpoonup> string) \<Rightarrow> string \<Rightarrow> py_exception + string" where
  "dict_getitem d k = (case d k of None \<Rightarrow> Inl KeyError | Some v \<Rightarrow> Inr v)"

definition dict_contains :: "(string \<rightharpoonup> string) \<Rightarrow> string \<Rightarrow> bool" where
  "dict_contains d k = (d k \<noteq> None)"

section \<open>\<open>recording_utils.py\<close>\<close>

definition normalize_extension :: "string \<Rightarrow> string" where
  "normalize_extension ext = (case ext of c # rest \<Rightarrow> (if c = CHR ''.'' then rest else ext) | [] \<Rightarrow> ext)"

definition is_video_file :: "'j environment \<Rightarrow> string \<Rightarrow> py_exception + bool" where
  "is_video_file env file_path =
     and_then (path_is_file env file_path) (\<lambda>is_file.
       if \<not> is_file then Inr False
       else let ext = normalize_extension (path_suffix file_path);
                valid_video_extensions = map normalize_extension (VIDEO_EXTS env)
            in if ext \<notin> set valid_video_extensions then Inr False else Inr True)"

definition assert_valid_rec_dir :: "'j environment \<Rightarrow> string \<Rightarrow> py_exception + unit" where
  "assert_valid_rec_dir env rec_dir_arg =
     and_then (resolve env rec_dir_arg) (\<lambda>rec_dir.
     and_then (path_exists env rec_dir) (\<lambda>exists.
       if \<not> exists
       then Inl (InvalidRecordingException (''Target at path does not exist: '' @ rec_dir) '''')
       else and_then (path_is_dir env rec_dir) (\<lambda>is_dir.
         if \<not> is_dir
         then and_then (is_video_file env rec_dir) (\<lambda>video.
                if video
                then Inl (InvalidRecordingException
                            ''The provided path is a video, not a recording directory''
                            ''Please provide a recording directory'')
                else Inl (InvalidRecordingException
                            (''Target at path is not a directory: '' @ rec_dir) ''''))
         else Inr ())))"

definition is_pupil_invisible_recording :: "'j environment \<Rightarrow> string \<Rightarrow> py_exception + bool" where
  "is_pupil_invisible_recording env rec_dir =
     try_except
       (and_then (read_info_json_file env rec_dir) (\<lambda>_. Inr True))
       (\<lambda>e. e = FileNotFoundError)
       (Inr False)"

definition is_pupil_mobile_recording :: "'j environment \<Rightarrow> string \<Rightarrow> py_exception + bool" where
  "is_pupil_mobile_recording env rec_dir =
     and_then (read_info_csv_file env rec_dir) (\<lambda>info_csv.
       try_except
         (and_then (dict_getitem info_csv ''Capture Software'') (\<lambda>software.
            Inr (software = ''Pupil Mobile'' \<and> \<not> dict_contains info_csv ''Data Format Version'')))
         (\<lambda>e. e = KeyError)
         (Inr False))"

definition was_recording_opened_in_player_before :: "'j environment \<Rightarrow> string \<Rightarrow> py_exception + bool" where
  "was_recording_opened_in_player_before env rec_dir =
     and_then (read_info_csv_file env rec_dir) (\<lambda>info_csv.
       Inr (dict_contains info_csv ''Data Format Version''))"

definition get_recording_type :: "'j environment \<Rightarrow> string \<Rightarrow> py_exception + RecordingType" where
  "get_recording_type env rec_dir =
     and_then (assert_valid_rec_dir env rec_dir) (\<lambda>_.
     and_then (does_recording_contain_info_file env rec_dir) (\<lambda>new_style.
       if new_style then Inr NEW_STYLE
       else and_then (was_recording_opened_in_player_before env rec_dir) (\<lambda>old_style.
         if old_style then Inr OLD_STYLE
         else and_then (is_pupil_invisible_recording env rec_dir) (\<lambda>invisible.
           if invisible then Inr INVISIBLE
           else and_then (is_pupil_mobile_recording env rec_dir) (\<lambda>mobile.
             if mobile then Inr MOBILE
             else Inl (InvalidRecordingException
                         ''There is no info file in the target directory.'' ''''))))))"

definition assert_valid_recording_type :: "'j environment \<Rightarrow> string \<Rightarrow> py_exception + unit" where
  "assert_valid_recording_type env rec_dir =
     and_then (get_recording_type env rec_dir) (\<lambda>t.
       if t \<in> set RecordingType_members then Inr () else Inl AssertionError)"

section \<open>The recording directory on disk\<close>

text \<open>
  Claims about what a directory \<^emph>\<open>contains\<close> need the three imported readers tied to the
  directory's files. Their code is not among the verified sources, so this section
  is written from the specification. A marker file is absent, present but failing to
  read with some exception (permission denied, malformed content), or readable with a
  value. A path names a directory with its three marker files, a regular file, or
  something else that exists (a device, a socket); nodes are looked up by resolved path.
  On such a file system the four \<open>pathlib\<close> queries always return.
\<close>

datatype 'a file_state = Absent | Unreadable py_exception | Readable 'a

record 'j recording_directory =
  new_style_info_file :: bool
  legacy_info_csv :: "(string \<rightharpoonup> string) file_state"
  device_info_json :: "'j file_state"

datatype 'j node = Directory "'j recording_directory" | RegularFile | SpecialFile

record 'j filesystem =
  fs_resolve :: "string \<Rightarrow> string"
  fs_node :: "string \<Rightarrow> 'j node option"
  fs_video_exts :: "string list"

definition directory_at :: "'j filesystem \<Rightarrow> string \<Rightarrow> py_exception + 'j recording_directory" where
  "directory_at fs p =
     (case fs_node fs (fs_resolve fs p) of
        None \<Rightarrow> Inl FileNotFoundError
      | Some (Directory d) \<Rightarrow> Inr d
      | Some _ \<Rightarrow> Inl NotADirectoryError)"

text \<open>
  Modelled from the spec: opening and parsing a marker file, the body shared by
  \<open>recording_info_utils.read_info_csv_file\<close> and \<open>recording_info_utils.read_info_json_file\<close>,
  which are missing from the sources. An absent file is the "file not found" condition
  (section 4.1, rule 3, and the \<open>except FileNotFoundError\<close> of
  \<open>is_pupil_invisible_recording\<close>); sections 4.1, 7 and 9 say that this condition is
  caught in the Invisible check only and that every other file-system error is fatal to
  the call, so the CSV reader raises it as well.
\<close>

definition read_file :: "'a file_state \<Rightarrow> py_exception + 'a" where
  "read_file f = (case f of Absent \<Rightarrow> Inl FileNotFoundError | Unreadable e \<Rightarrow> Inl e | Readable v \<Rightarrow> Inr v)"

text \<open>
  Modelled from the spec: \<open>recording_info_utils.read_info_csv_file\<close>, missing from the
  sources: reads the legacy CSV info file of the directory as a key-value dictionary.
\<close>

definition fs_read_info_csv_file :: "'j filesystem \<Rightarrow> string \<Rightarrow> py_exception + (string \<rightharpoonup> string)" where
  "fs_read_info_csv_file fs p = and_then (directory_at fs p) (\<lambda>d. read_file (legacy_info_csv d))"

text \<open>
  Modelled from the spec: \<open>recording_info_utils.read_info_json_file\<close>, missing from the
  sources: reads the device JSON info file of the directory.
\<close>

definition fs_read_info_json_file :: "'j filesystem \<Rightarrow> string \<Rightarrow> py_exception + 'j" where
  "fs_read_info_json_file fs p = and_then (directory_at fs p) (\<lambda>d. read_file (device_info_json d))"

text \<open>
  Modelled from the spec: \<open>RecordingInfoFile.does_recording_contain_info_file\<close>, missing
  from the sources: whether the structured recording-info marker file is present
  directly in the directory (section 4.1, rule 1).
\<close>

definition fs_does_recording_contain_info_file :: "'j filesystem \<Rightarrow> string \<Rightarrow> py_exception + bool" where
  "fs_does_recording_contain_info_file fs p =
     (case directory_at fs p of Inr d \<Rightarrow> Inr (new_style_info_file d) | Inl _ \<Rightarrow> Inr False)"

definition environment_of :: "'j filesystem \<Rightarrow> 'j environment" where
  "environment_of fs =
     \<lparr> resolve = (\<lambda>p. Inr (fs_resolve fs p)),
       path_exists = (\<lambda>p. Inr (case fs_node fs p of None \<Rightarrow> False | Some _ \<Rightarrow> True)),
       path_is_dir = (\<lambda>p. Inr (case fs_node fs p of Some (Directory _) \<Rightarrow> True | _ \<Rightarrow> False)),
       path_is_file = (\<lambda>p. Inr (case fs_node fs p of Some RegularFile \<Rightarrow> True | _ \<Rightarrow> False)),
       VIDEO_EXTS = fs_video_exts fs,
       does_recording_contain_info_file = fs_does_recording_contain_info_file fs,
       read_info_csv_file = fs_read_info_csv_file fs,
       read_info_json_file = fs_read_info_json_file fs \<rparr>"

section \<open>\<open>runtime_hook_sounddevice.py\<close>\<close>

text \<open>
  The hook mutates one global, \<open>ctypes.util.find_library\<close>, and writes to a logger.
  Both are fields of the interpreter state; a library finder returns a name, \<open>None\<close>,
  or raises. A \<open>SoundDevicePatcher\<close> object keeps the finder it found installed.
\<close>

type_synonym finder = "string \<Rightarrow> py_exception + string option"

record interpreter =
  find_library :: finder
  log :: "string list"

record SoundDevicePatcher =
  original_find_library :: finder

definition find_library_patched :: "SoundDevicePatcher \<Rightarrow> finder" where
  "find_library_patched self name =
     (if name = ''portaudio'' then Inr (Some ''libportaudio.so.2'')
      else original_find_library self name)"

definition patch_library :: "SoundDevicePatcher \<Rightarrow> interpreter \<Rightarrow> interpreter" where
  "patch_library self s =
     s\<lparr> find_library := find_library_patched self,
        log := log s @ [''Patched `ctypes.util.find_library` to find sounddevice.''] \<rparr>"

definition new_SoundDevicePatcher :: "interpreter \<Rightarrow> SoundDevicePatcher \<times> interpreter" where
  "new_SoundDevicePatcher s =
     (let self = \<lparr> original_find_library = find_library s \<rparr>
      in (self, patch_library self s))"

definition restore_library :: "SoundDevicePatcher \<Rightarrow> interpreter \<Rightarrow> interpreter" where
  "restore_library self s =
     s\<lparr> find_library := original_find_library self,
        log := log s @ [''Restored original `ctypes.util.find_library`.''] \<rparr>"

section \<open>\<open>pye3d_plugin.py\<close>: the version gate at import\<close>

text \<open>
  The module body first runs its import statements, which give the \<open>pye3d\<close> module
  object or raise; of that object only the optional attribute \<open>__version__\<close> is read.
  A module body that runs to its end leaves a namespace, here the two version strings
  and the names of the classes defined.
\<close>

record pye3d_module =
  version_attr :: "string option"

record plugin_namespace =
  ns_version_installed :: string
  ns_version_supported :: string
  ns_classes :: "string list"

definition version_installed :: "pye3d_module \<Rightarrow> string" where
  "version_installed pye3d = (case version_attr pye3d of Some v \<Rightarrow> v | None \<Rightarrow> ''0.0.1'')"

definition version_supported :: string where
  "version_supported = ''0.0.4''"

definition import_pye3d_plugin ::
  "py_exception + pye3d_module \<Rightarrow> interpreter \<Rightarrow> (py_exception + plugin_namespace) \<times> interpreter" where
  "import_pye3d_plugin imported s =
     (case imported of
        Inl e \<Rightarrow> (Inl e, s)
      | Inr pye3d \<Rightarrow>
          (if version_installed pye3d \<noteq> version_supported
           then (Inl (ImportError ''Unsupported version found''),
                 s\<lparr> log := log s @ [''Requires pye3d version '' @ version_supported @
                                     '' (Installed: '' @ version_installed pye3d @ '')''] \<rparr>)
           else (Inr \<lparr> ns_version_installed = version_installed pye3d,
                       ns_version_supported = version_supported,
                       ns_classes = [''Pye3DPlugin''] \<rparr>, s)))"

section \<open>The specification's reading of the video test\<close>

text \<open>
  Section 4.1 of the specification words the video test as a comparison of extensions
  that ignores case. This predicate follows those words, for comparison with
  \<open>is_video_file\<close>, which is what the code computes.
\<close>

definition ascii_lower :: "char \<Rightarrow> char" where
  "ascii_lower c =
     (case map_of (zip ''ABCDEFGHIJKLMNOPQRSTUVWXYZ'' ''abcdefghijklmnopqrstuvwxyz'') c of
        Some l \<Rightarrow> l | None \<Rightarrow> c)"

definition known_video_extension_ignoring_case :: "string list \<Rightarrow> string \<Rightarrow> bool" where
  "known_video_extension_ignoring_case exts suffix =
     (map ascii_lower (normalize_extension suffix)
        \<in> set (map (\<lambda>e. map ascii_lower (normalize_extension e)) exts))"

section \<open>Concrete inputs\<close>

text \<open>
  A file system with a single node, paths resolving to themselves; the environment
  of a recording directory \<open>/rec\<close> given by the state of its three marker files (the JSON
  value of the examples is the text of the file); the environment of a single regular
  file, with a list of video extensions in lower case; that environment with a parent
  directory that may not be searched, so that \<open>Path.exists\<close> raises; an interpreter
  whose library finder knows the C library only.
\<close>

definition one_node_fs :: "string \<Rightarrow> 'j node \<Rightarrow> string list \<Rightarrow> 'j filesystem" where
  "one_node_fs path n exts =
     \<lparr> fs_resolve = (\<lambda>p. p), fs_node = (\<lambda>p. if p = path then Some n else None), fs_video_exts = exts \<rparr>"

definition recording_with ::
  "bool \<Rightarrow> (string \<rightharpoonup> string) file_state \<Rightarrow> string file_state \<Rightarrow> string environment" where
  "recording_with marker csv json =
     environment_of (one_node_fs ''/rec''
       (Directory \<lparr> new_style_info_file = marker, legacy_info_csv = csv, device_info_json = json \<rparr>) [])"

definition mobile_csv :: "string \<rightharpoonup> string" where
  "mobile_csv = [''Capture Software'' \<mapsto> ''Pupil Mobile'']"

definition player_csv :: "string \<rightharpoonup> string" where
  "player_csv = [''Capture Software'' \<mapsto> ''Pupil Capture'', ''Data Format Version'' \<mapsto> ''1.16'']"

definition lower_case_video_exts :: "string list" where
  "lower_case_video_exts = [''mp4'', ''mjpeg'', ''h264'', ''mkv'', ''avi'', ''fake'']"

definition file_env :: "string \<Rightarrow> string environment" where
  "file_env path = environment_of (one_node_fs path RegularFile lower_case_video_exts)"

definition unsearchable_env :: "string environment" where
  "unsearchable_env = (file_env ''/private/clip.mkv'')\<lparr> path_exists := (\<lambda>_. Inl PermissionError) \<rparr>"

definition bare_interpreter :: interpreter where
  "bare_interpreter =
     \<lparr> find_library = (\<lambda>name. if name = ''c'' then Inr (Some ''libc.so.6'') else Inr None), log = [] \<rparr>"

section \<open>Basic facts\<close>

lemma and_then_simps [simp]:
  "and_then (Inl e) f = Inl e" "and_then (Inr v) f = f v"
  by (simp_all add: and_then_def)

lemma try_except_simps [simp]:
  "try_except (Inr v) c h = Inr v"
  "try_except (Inl e) c h = (if c e then h else Inl e)"
  by (simp_all add: try_except_def)

lemma read_file_simps [simp]:
  "read_file Absent = Inl FileNotFoundError"
  "read_file (Unreadable e) = Inl e"
  "read_file (Readable v) = Inr v"
  by (simp_all add: read_file_def)

lemma recording_with_fields [simp]:
  "resolve (recording_with m c j) p = Inr p"
  "path_exists (recording_with m c j) p = Inr (p = ''/rec'')"
  "path_is_dir (recording_with m c j) p = Inr (p = ''/rec'')"
  "does_recording_contain_info_file (recording_with m c j) ''/rec'' = Inr m"
  "read_info_csv_file (recording_with m c j) ''/rec'' = read_file c"
  "read_info_json_file (recording_with m c j) ''/rec'' = read_file j"
  by (simp_all add: recording_with_def environment_of_def one_node_fs_def directory_at_def
        fs_does_recording_contain_info_file_def fs_read_info_csv_file_def fs_read_info_json_file_def)

lemma recording_with_valid [simp]:
  "assert_valid_rec_dir (recording_with m c j) ''/rec'' = Inr ()"
  by (simp add: assert_valid_rec_dir_def)

lemma file_env_fields [simp]:
  "resolve (file_env f) p = Inr p"
  "path_exists (file_env f) p = Inr (p = f)"
  "path_is_dir (file_env f) p = Inr False"
  "path_is_file (file_env f) p = Inr (p = f)"
  "VIDEO_EXTS (file_env f) = lower_case_video_exts"
  by (simp_all add: file_env_def environment_of_def one_node_fs_def)

text \<open>Validation looks at the path and at \<open>VIDEO_EXTS\<close> only, never at the three readers.\<close>

lemma assert_valid_rec_dir_same_files:
  assumes "resolve env' = resolve env" "path_exists env' = path_exists env"
    "path_is_dir env' = path_is_dir env" "path_is_file env' = path_is_file env"
    "VIDEO_EXTS env' = VIDEO_EXTS env"
  shows "assert_valid_rec_dir env' p = assert_valid_rec_dir env p"
proof -
  have video: "is_video_file env' = is_video_file env"
    unfolding fun_eq_iff is_video_file_def assms by simp
  show ?thesis
    unfolding assert_valid_rec_dir_def assms video by (rule refl)
qed

lemma was_opened_json_update:
  "was_recording_opened_in_player_before (env\<lparr> read_info_json_file := json \<rparr>) p
     = was_recording_opened_in_player_before env p"
  by (simp add: was_recording_opened_in_player_before_def)

text \<open>
  On a valid directory without the NewStyle marker, any exception of the CSV reader
  leaves \<open>get_recording_type\<close> as it is: the OldStyle check has no handler. The final
  \<open>raise\<close> of \<open>get_recording_type\<close> is reached when the CSV reader returns a dictionary
  that matches neither the OldStyle nor the Mobile rule and the JSON file is not found.
\<close>

lemma get_recording_type_csv_reader_raises:
  assumes "assert_valid_rec_dir env p = Inr ()"
    and "does_recording_contain_info_file env p = Inr False"
    and "read_info_csv_file env p = Inl e"
  shows "get_recording_type env p = Inl e"
  using assms by (simp add: get_recording_type_def was_recording_opened_in_player_before_def)

lemma get_recording_type_final_raise:
  assumes "assert_valid_rec_dir env p = Inr ()"
    and "does_recording_contain_info_file env p = Inr False"
    and "read_info_csv_file env p = Inr d"
    and "d ''Data Format Version'' = None"
    and "d ''Capture Software'' \<noteq> Some ''Pupil Mobile''"
    and "read_info_json_file env p = Inl FileNotFoundError"
  shows "get_recording_type env p =
           Inl (InvalidRecordingException ''There is no info file in the target directory.'' '''')"
  using assms
  by (auto simp: get_recording_type_def was_recording_opened_in_player_before_def
        is_pupil_invisible_recording_def is_pupil_mobile_recording_def dict_contains_def
        dict_getitem_def split: option.splits)

section \<open>Validation\<close>

text \<open>
  Claim C4, as stated: a regular file whose extension is a known video extension
  \<^emph>\<open>when case is ignored\<close> is rejected as a video. This fails: \<open>is_video_file\<close> compares
  the suffix with the entries of \<open>VIDEO_EXTS\<close> by plain equality. With the extensions
  listed in lower case, the regular file \<open>/videos/world.MP4\<close> has a known extension when
  case is ignored, and validation reports that the target is not a directory, with an
  empty recovery.
\<close>

theorem assert_valid_rec_dir_upper_case_video:
  "resolve (file_env ''/videos/world.MP4'') ''/videos/world.MP4'' = Inr ''/videos/world.MP4''
   \<and> path_exists (file_env ''/videos/world.MP4'') ''/videos/world.MP4'' = Inr True
   \<and> path_is_dir (file_env ''/videos/world.MP4'') ''/videos/world.MP4'' = Inr False
   \<and> path_is_file (file_env ''/videos/world.MP4'') ''/videos/world.MP4'' = Inr True
   \<and> known_video_extension_ignoring_case (VIDEO_EXTS (file_env ''/videos/world.MP4''))
        (path_suffix ''/videos/world.MP4'')
   \<and> assert_valid_rec_dir (file_env ''/videos/world.MP4'') ''/videos/world.MP4''
        \<noteq> Inl (InvalidRecordingException ''The provided path is a video, not a recording directory''
                  ''Please provide a recording directory'')
   \<and> assert_valid_rec_dir (file_env ''/videos/world.MP4'') ''/videos/world.MP4''
        = Inl (InvalidRecordingException ''Target at path is not a directory: /videos/world.MP4'' '''')"
  by (simp add: assert_valid_rec_dir_def is_video_file_def known_video_extension_ignoring_case_def
        path_suffix_def path_name_def normalize_extension_def lower_case_video_exts_def ascii_lower_def)

text \<open>
  Claim C4, amended: for every path that resolves to an existing regular file (not a
  directory) whose suffix, one leading dot stripped, is equal, character for character,
  to an entry of \<open>VIDEO_EXTS\<close> with its leading dot stripped, validation fails with the
  reason "The provided path is a video, not a recording directory" and the recovery
  "Please provide a recording directory".
\<close>

theorem assert_valid_rec_dir_video_file:
  assumes "resolve env p = Inr rec_dir"
    and "path_exists env rec_dir = Inr True" and "path_is_dir env rec_dir = Inr False"
    and "path_is_file env rec_dir = Inr True"
    and "normalize_extension (path_suffix rec_dir) \<in> set (map normalize_extension (VIDEO_EXTS env))"
  shows "assert_valid_rec_dir env p =
           Inl (InvalidRecordingException ''The provided path is a video, not a recording directory''
                  ''Please provide a recording directory'')"
  using assms by (simp add: assert_valid_rec_dir_def is_video_file_def Let_def)

theorem assert_valid_rec_dir_video_file_witness:
  "assert_valid_rec_dir (file_env ''/videos/world.mp4'') ''/videos/world.mp4'' =
           Inl (InvalidRecordingException ''The provided path is a video, not a recording directory''
                  ''Please provide a recording directory'')"
proof (rule assert_valid_rec_dir_video_file)
  show "resolve (file_env ''/videos/world.mp4'') ''/videos/world.mp4'' = Inr ''/videos/world.mp4''"
    by simp
  show "path_exists (file_env ''/videos/world.mp4'') ''/videos/world.mp4'' = Inr True"
    by simp
  show "path_is_dir (file_env ''/videos/world.mp4'') ''/videos/world.mp4'' = Inr False"
    by simp
  show "path_is_file (file_env ''/videos/world.mp4'') ''/videos/world.mp4'' = Inr True"
    by simp
  show "normalize_extension (path_suffix ''/videos/world.mp4'')
          \<in> set (map normalize_extension (VIDEO_EXTS (file_env ''/videos/world.mp4'')))"
    by (simp add: path_suffix_def path_name_def normalize_extension_def lower_case_video_exts_def)
qed

text \<open>
  Claim C5. Whenever validation of a path fails, classification of that path fails with
  the very same exception: for an \<open>InvalidRecordingException\<close> that is the same reason
  and the same recovery, and an exception raised by \<open>pathlib\<close> during validation is
  passed on unchanged as well. No format check takes part: the outcome is the same
  whatever the three readers of marker files would return or raise.
\<close>

theorem get_recording_type_propagates_validation_failure:
  assumes "assert_valid_rec_dir env p = Inl e"
  shows "get_recording_type env p = Inl e
       \<and> (\<forall>info csv json. get_recording_type
             (env\<lparr> does_recording_contain_info_file := info, read_info_csv_file := csv,
                   read_info_json_file := json \<rparr>) p = Inl e)"
proof -
  have plain: "get_recording_type env p = Inl e"
    using assms by (simp add: get_recording_type_def)
  have "get_recording_type
          (env\<lparr> does_recording_contain_info_file := info, read_info_csv_file := csv,
                read_info_json_file := json \<rparr>) p = Inl e" for info csv json
    using assms assert_valid_rec_dir_same_files
      [of "env\<lparr> does_recording_contain_info_file := info, read_info_csv_file := csv,
                read_info_json_file := json \<rparr>" env p]
    by (simp add: get_recording_type_def)
  with plain show ?thesis by blast
qed

text \<open>
  A path that does not exist, a video file, and a path below a directory that may not
  be searched, each classified as it is validated.
\<close>

theorem get_recording_type_propagates_validation_failure_witness:
  "assert_valid_rec_dir (recording_with True (Readable mobile_csv) Absent) ''/elsewhere''
     = Inl (InvalidRecordingException ''Target at path does not exist: /elsewhere'' '''')
   \<and> get_recording_type (recording_with True (Readable mobile_csv) Absent) ''/elsewhere''
     = Inl (InvalidRecordingException ''Target at path does not exist: /elsewhere'' '''')
   \<and> assert_valid_rec_dir (file_env ''/videos/clip.mkv'') ''/videos/clip.mkv''
     = Inl (InvalidRecordingException ''The provided path is a video, not a recording directory''
                  ''Please provide a recording directory'')
   \<and> get_recording_type (file_env ''/videos/clip.mkv'') ''/videos/clip.mkv''
     = Inl (InvalidRecordingException ''The provided path is a video, not a recording directory''
                  ''Please provide a recording directory'')
   \<and> assert_valid_rec_dir unsearchable_env ''/private/clip.mkv'' = Inl PermissionError
   \<and> get_recording_type unsearchable_env ''/private/clip.mkv'' = Inl PermissionError"
proof -
  have a: "assert_valid_rec_dir (recording_with True (Readable mobile_csv) Absent) ''/elsewhere''
     = Inl (InvalidRecordingException ''Target at path does not exist: /elsewhere'' '''')"
    by (simp add: assert_valid_rec_dir_def)
  have b: "assert_valid_rec_dir (file_env ''/videos/clip.mkv'') ''/videos/clip.mkv''
     = Inl (InvalidRecordingException ''The provided path is a video, not a recording directory''
                  ''Please provide a recording directory'')"
    by (simp add: assert_valid_rec_dir_def is_video_file_def path_suffix_def path_name_def
          normalize_extension_def lower_case_video_exts_def)
  have c: "assert_valid_rec_dir unsearchable_env ''/private/clip.mkv'' = Inl PermissionError"
    by (simp add: assert_valid_rec_dir_def unsearchable_env_def)
  from a b c get_recording_type_propagates_validation_failure [OF a]
    get_recording_type_propagates_validation_failure [OF b]
    get_recording_type_propagates_validation_failure [OF c]
  show ?thesis by blast
qed

section \<open>Classification\<close>

text \<open>
  Claim C1. A valid recording directory that contains none of the marker files should
  make classification fail with the \<open>InvalidRecordingException\<close> "There is no info file
  in the target directory." and an empty recovery, and with no other kind of fault.
  The code does not do so: \<open>was_recording_opened_in_player_before\<close> reads the legacy
  CSV file outside any \<open>try\<close>, so on the valid directory with no file at all the
  \<open>FileNotFoundError\<close> of the reader leaves \<open>get_recording_type\<close> before its final
  \<open>raise\<close> is reached.
\<close>

theorem get_recording_type_empty_directory:
  "assert_valid_rec_dir (recording_with False Absent Absent) ''/rec'' = Inr ()
   \<and> get_recording_type (recording_with False Absent Absent) ''/rec'' = Inl FileNotFoundError"
  by (simp add: get_recording_type_def was_recording_opened_in_player_before_def)

text \<open>
  Claim C2. On a valid directory, classification returns the variant of the first rule
  that matches, in the order NewStyle, OldStyle, Invisible, Mobile, and what the later
  rules would do is of no consequence: once the NewStyle marker is found the result is
  \<open>NEW_STYLE\<close> whatever the CSV and JSON readers return or raise, and once the OldStyle
  rule matches it is \<open>OLD_STYLE\<close> whatever the JSON reader does.
\<close>

theorem get_recording_type_first_match:
  assumes "assert_valid_rec_dir env p = Inr ()"
  shows "(does_recording_contain_info_file env p = Inr True \<longrightarrow>
            (\<forall>csv json. get_recording_type
               (env\<lparr> read_info_csv_file := csv, read_info_json_file := json \<rparr>) p = Inr NEW_STYLE))
       \<and> (does_recording_contain_info_file env p = Inr False
            \<and> was_recording_opened_in_player_before env p = Inr True \<longrightarrow>
            (\<forall>json. get_recording_type (env\<lparr> read_info_json_file := json \<rparr>) p = Inr OLD_STYLE))
       \<and> (does_recording_contain_info_file env p = Inr False
            \<and> was_recording_opened_in_player_before env p = Inr False
            \<and> is_pupil_invisible_recording env p = Inr True \<longrightarrow>
            get_recording_type env p = Inr INVISIBLE)
       \<and> (does_recording_contain_info_file env p = Inr False
            \<and> was_recording_opened_in_player_before env p = Inr False
            \<and> is_pupil_invisible_recording env p = Inr False
            \<and> is_pupil_mobile_recording env p = Inr True \<longrightarrow>
            get_recording_type env p = Inr MOBILE)"
proof -
  have valid: "assert_valid_rec_dir (env\<lparr> read_info_csv_file := csv, read_info_json_file := json \<rparr>) p = Inr ()"
    for csv json
    using assms assert_valid_rec_dir_same_files
      [of "env\<lparr> read_info_csv_file := csv, read_info_json_file := json \<rparr>" env p] by simp
  have valid': "assert_valid_rec_dir (env\<lparr> read_info_json_file := json \<rparr>) p = Inr ()" for json
    using assms assert_valid_rec_dir_same_files [of "env\<lparr> read_info_json_file := json \<rparr>" env p]
    by simp
  show ?thesis
    using assms by (simp add: get_recording_type_def valid valid' was_opened_json_update)
qed

text \<open>
  The four rules at work: a directory with the NewStyle marker, a Mobile CSV and the
  device JSON; one with a player CSV and the device JSON; one with a Mobile CSV and the
  device JSON; one with a Mobile CSV only.
\<close>

theorem get_recording_type_first_match_witness:
  "get_recording_type (recording_with True (Readable mobile_csv) (Readable ''{}'')) ''/rec'' = Inr NEW_STYLE
   \<and> get_recording_type (recording_with False (Readable player_csv) (Readable ''{}'')) ''/rec'' = Inr OLD_STYLE
   \<and> get_recording_type (recording_with False (Readable mobile_csv) (Readable ''{}'')) ''/rec'' = Inr INVISIBLE
   \<and> get_recording_type (recording_with False (Readable mobile_csv) Absent) ''/rec'' = Inr MOBILE"
proof -
  let ?both = "recording_with True (Readable mobile_csv) (Readable ''{}'')"
  have "does_recording_contain_info_file ?both ''/rec'' = Inr True" by simp
  with get_recording_type_first_match [of ?both "''/rec''", OF recording_with_valid]
  have "get_recording_type (?both\<lparr> read_info_csv_file := read_info_csv_file ?both,
          read_info_json_file := read_info_json_file ?both \<rparr>) ''/rec'' = Inr NEW_STYLE"
    by blast
  then have new: "get_recording_type ?both ''/rec'' = Inr NEW_STYLE" by simp
  let ?old = "recording_with False (Readable player_csv) (Readable ''{}'')"
  have "does_recording_contain_info_file ?old ''/rec'' = Inr False"
    "was_recording_opened_in_player_before ?old ''/rec'' = Inr True"
    by (simp_all add: was_recording_opened_in_player_before_def dict_contains_def player_csv_def)
  with get_recording_type_first_match [of ?old "''/rec''", OF recording_with_valid]
  have "get_recording_type (?old\<lparr> read_info_json_file := read_info_json_file ?old \<rparr>) ''/rec'' = Inr OLD_STYLE"
    by blast
  then have old: "get_recording_type ?old ''/rec'' = Inr OLD_STYLE" by simp
  let ?inv = "recording_with False (Readable mobile_csv) (Readable ''{}'')"
  have "does_recording_contain_info_file ?inv ''/rec'' = Inr False"
    "was_recording_opened_in_player_before ?inv ''/rec'' = Inr False"
    "is_pupil_invisible_recording ?inv ''/rec'' = Inr True"
    by (simp_all add: was_recording_opened_in_player_before_def dict_contains_def mobile_csv_def
          is_pupil_invisible_recording_def)
  with get_recording_type_first_match [of ?inv "''/rec''", OF recording_with_valid]
  have inv: "get_recording_type ?inv ''/rec'' = Inr INVISIBLE" by simp
  let ?mob = "recording_with False (Readable mobile_csv) Absent"
  have "does_recording_contain_info_file ?mob ''/rec'' = Inr False"
    "was_recording_opened_in_player_before ?mob ''/rec'' = Inr False"
    "is_pupil_invisible_recording ?mob ''/rec'' = Inr False"
    "is_pupil_mobile_recording ?mob ''/rec'' = Inr True"
    by (simp_all add: was_recording_opened_in_player_before_def dict_contains_def mobile_csv_def
          is_pupil_invisible_recording_def is_pupil_mobile_recording_def dict_getitem_def)
  with get_recording_type_first_match [of ?mob "''/rec''", OF recording_with_valid]
  have mob: "get_recording_type ?mob ''/rec'' = Inr MOBILE" by simp
  from new old inv mob show ?thesis by simp
qed

text \<open>
  Claim C3. A valid directory that holds the device JSON info file and no legacy CSV
  info file should be classified as Invisible. The code does not get that far: the
  OldStyle rule runs first and its unguarded read of the absent CSV file raises
  \<open>FileNotFoundError\<close>, although the Invisible check on its own accepts the directory.
\<close>

theorem get_recording_type_device_json_only:
  "assert_valid_rec_dir (recording_with False Absent (Readable ''{}'')) ''/rec'' = Inr ()
   \<and> is_pupil_invisible_recording (recording_with False Absent (Readable ''{}'')) ''/rec'' = Inr True
   \<and> get_recording_type (recording_with False Absent (Readable ''{}'')) ''/rec'' = Inl FileNotFoundError"
  by (simp add: get_recording_type_def was_recording_opened_in_player_before_def
        is_pupil_invisible_recording_def)

text \<open>
  Claim C8. Whatever \<open>get_recording_type\<close> returns is a member of \<open>RecordingType\<close>, so the
  assertion of \<open>assert_valid_recording_type\<close> holds on every return: the function
  succeeds exactly when \<open>get_recording_type\<close> does, and when that raises it raises the
  same exception.
\<close>

theorem assert_valid_recording_type_follows_classification:
  "(\<forall>t. get_recording_type env p = Inr t \<longrightarrow>
         t \<in> set RecordingType_members \<and> assert_valid_recording_type env p = Inr ())
   \<and> (\<forall>e. get_recording_type env p = Inl e \<longrightarrow> assert_valid_recording_type env p = Inl e)
   \<and> ((\<exists>u. assert_valid_recording_type env p = Inr u) \<longleftrightarrow> (\<exists>t. get_recording_type env p = Inr t))"
proof -
  have members: "t \<in> set RecordingType_members" for t
    by (cases t) (simp_all add: RecordingType_members_def)
  show ?thesis
    by (cases "get_recording_type env p") (simp_all add: assert_valid_recording_type_def members)
qed

theorem assert_valid_recording_type_follows_classification_witness:
  "assert_valid_recording_type (recording_with False (Readable mobile_csv) Absent) ''/rec'' = Inr ()
   \<and> assert_valid_recording_type (recording_with False (Readable Map.empty) Absent) ''/rec''
       = Inl (InvalidRecordingException ''There is no info file in the target directory.'' '''')"
proof -
  have "get_recording_type (recording_with False (Readable mobile_csv) Absent) ''/rec'' = Inr MOBILE"
    by (simp add: get_recording_type_def was_recording_opened_in_player_before_def
          is_pupil_invisible_recording_def is_pupil_mobile_recording_def dict_getitem_def
          dict_contains_def mobile_csv_def)
  with assert_valid_recording_type_follows_classification
         [of "recording_with False (Readable mobile_csv) Absent" "''/rec''"]
  have ok: "assert_valid_recording_type (recording_with False (Readable mobile_csv) Absent) ''/rec'' = Inr ()"
    by blast
  have "get_recording_type (recording_with False (Readable Map.empty) Absent) ''/rec''
          = Inl (InvalidRecordingException ''There is no info file in the target directory.'' '''')"
    by (simp add: get_recording_type_def was_recording_opened_in_player_before_def
          is_pupil_invisible_recording_def is_pupil_mobile_recording_def dict_getitem_def
          dict_contains_def)
  with assert_valid_recording_type_follows_classification
         [of "recording_with False (Readable Map.empty) Absent" "''/rec''"]
  have failed: "assert_valid_recording_type (recording_with False (Readable Map.empty) Absent) ''/rec''
       = Inl (InvalidRecordingException ''There is no info file in the target directory.'' '''')"
    by blast
  from ok failed show ?thesis by simp
qed

section \<open>The format checks\<close>

text \<open>
  Claim C6. \<open>is_pupil_invisible_recording\<close> returns \<open>False\<close> exactly when reading the
  device JSON info file raises \<open>FileNotFoundError\<close>, returns \<open>True\<close> exactly when the
  read succeeds, and lets every other exception of the read through to its caller.
\<close>

theorem is_pupil_invisible_recording_outcomes:
  "(is_pupil_invisible_recording env p = Inr False \<longleftrightarrow> read_info_json_file env p = Inl FileNotFoundError)
   \<and> (is_pupil_invisible_recording env p = Inr True \<longleftrightarrow> (\<exists>j. read_info_json_file env p = Inr j))
   \<and> (\<forall>e. read_info_json_file env p = Inl e \<and> e \<noteq> FileNotFoundError
          \<longrightarrow> is_pupil_invisible_recording env p = Inl e)"
  by (cases "read_info_json_file env p") (auto simp: is_pupil_invisible_recording_def)

text \<open>An absent file, a readable one, one that may not be read and a malformed one.\<close>

theorem is_pupil_invisible_recording_outcomes_witness:
  "is_pupil_invisible_recording (recording_with False Absent Absent) ''/rec'' = Inr False
   \<and> is_pupil_invisible_recording (recording_with False Absent (Readable ''{}'')) ''/rec'' = Inr True
   \<and> is_pupil_invisible_recording (recording_with False Absent (Unreadable PermissionError)) ''/rec''
       = Inl PermissionError
   \<and> is_pupil_invisible_recording (recording_with False Absent (Unreadable ValueError)) ''/rec''
       = Inl ValueError"
proof -
  have "read_info_json_file (recording_with False Absent Absent) ''/rec'' = Inl FileNotFoundError"
    by simp
  with is_pupil_invisible_recording_outcomes [of "recording_with False Absent Absent" "''/rec''"]
  have absent: "is_pupil_invisible_recording (recording_with False Absent Absent) ''/rec'' = Inr False"
    by blast
  have "read_info_json_file (recording_with False Absent (Readable ''{}'')) ''/rec'' = Inr ''{}''"
    by simp
  with is_pupil_invisible_recording_outcomes [of "recording_with False Absent (Readable ''{}'')" "''/rec''"]
  have readable: "is_pupil_invisible_recording (recording_with False Absent (Readable ''{}'')) ''/rec'' = Inr True"
    by blast
  have "read_info_json_file (recording_with False Absent (Unreadable PermissionError)) ''/rec''
          = Inl PermissionError \<and> PermissionError \<noteq> FileNotFoundError"
    by simp
  with is_pupil_invisible_recording_outcomes
         [of "recording_with False Absent (Unreadable PermissionError)" "''/rec''"]
  have denied: "is_pupil_invisible_recording (recording_with False Absent (Unreadable PermissionError)) ''/rec''
          = Inl PermissionError"
    by blast
  have "read_info_json_file (recording_with False Absent (Unreadable ValueError)) ''/rec''
          = Inl ValueError \<and> ValueError \<noteq> FileNotFoundError"
    by simp
  with is_pupil_invisible_recording_outcomes
         [of "recording_with False Absent (Unreadable ValueError)" "''/rec''"]
  have malformed: "is_pupil_invisible_recording (recording_with False Absent (Unreadable ValueError)) ''/rec''
          = Inl ValueError"
    by blast
  from absent readable denied malformed show ?thesis by simp
qed

text \<open>
  Claim C7. \<open>is_pupil_mobile_recording\<close> returns \<open>True\<close> if and only if the legacy CSV
  info file is there to be read as a dictionary, its "Capture Software" entry is
  "Pupil Mobile" and it has no "Data Format Version" key. A missing "Capture Software"
  key gives \<open>False\<close>, and once the file has been read no exception leaves the function.
\<close>

theorem is_pupil_mobile_recording_iff:
  "(is_pupil_mobile_recording env p = Inr True \<longleftrightarrow>
      (\<exists>d. read_info_csv_file env p = Inr d \<and> d ''Capture Software'' = Some ''Pupil Mobile''
           \<and> d ''Data Format Version'' = None))
   \<and> (\<forall>d. read_info_csv_file env p = Inr d \<and> d ''Capture Software'' = None
          \<longrightarrow> is_pupil_mobile_recording env p = Inr False)
   \<and> (\<forall>d. read_info_csv_file env p = Inr d \<longrightarrow> (\<exists>b. is_pupil_mobile_recording env p = Inr b))"
  by (cases "read_info_csv_file env p")
     (auto simp: is_pupil_mobile_recording_def dict_getitem_def dict_contains_def split: option.splits)

text \<open>A Mobile CSV, a CSV without any key, and the CSV of a recording opened in Player.\<close>

theorem is_pupil_mobile_recording_iff_witness:
  "is_pupil_mobile_recording (recording_with False (Readable mobile_csv) Absent) ''/rec'' = Inr True
   \<and> is_pupil_mobile_recording (recording_with False (Readable Map.empty) Absent) ''/rec'' = Inr False
   \<and> is_pupil_mobile_recording (recording_with False (Readable player_csv) Absent) ''/rec'' \<noteq> Inr True"
proof -
  have "read_info_csv_file (recording_with False (Readable mobile_csv) Absent) ''/rec'' = Inr mobile_csv
        \<and> mobile_csv ''Capture Software'' = Some ''Pupil Mobile''
        \<and> mobile_csv ''Data Format Version'' = None"
    by (simp add: mobile_csv_def)
  with is_pupil_mobile_recording_iff [of "recording_with False (Readable mobile_csv) Absent" "''/rec''"]
  have mobile: "is_pupil_mobile_recording (recording_with False (Readable mobile_csv) Absent) ''/rec'' = Inr True"
    by blast
  have "read_info_csv_file (recording_with False (Readable Map.empty) Absent) ''/rec'' = Inr Map.empty
        \<and> (Map.empty :: string \<rightharpoonup> string) ''Capture Software'' = None"
    by simp
  with is_pupil_mobile_recording_iff [of "recording_with False (Readable Map.empty) Absent" "''/rec''"]
  have missing: "is_pupil_mobile_recording (recording_with False (Readable Map.empty) Absent) ''/rec'' = Inr False"
    by blast
  have "\<not> (\<exists>d. read_info_csv_file (recording_with False (Readable player_csv) Absent) ''/rec'' = Inr d
        \<and> d ''Capture Software'' = Some ''Pupil Mobile'' \<and> d ''Data Format Version'' = None)"
    by (simp add: player_csv_def)
  with is_pupil_mobile_recording_iff [of "recording_with False (Readable player_csv) Absent" "''/rec''"]
  have player: "is_pupil_mobile_recording (recording_with False (Readable player_csv) Absent) ''/rec'' \<noteq> Inr True"
    by blast
  from mobile missing player show ?thesis by simp
qed

section \<open>The library finder patch\<close>

text \<open>
  Claim C9. From the construction of a \<open>SoundDevicePatcher\<close> on, the installed library
  finder answers "libportaudio.so.2" for "portaudio" and answers every other name as
  the finder installed before did. After \<open>restore_library\<close> the installed finder is
  that earlier finder again, directly after patching as well as from any later state.
\<close>

theorem sound_device_patch_then_restore:
  "find_library (snd (new_SoundDevicePatcher s)) ''portaudio'' = Inr (Some ''libportaudio.so.2'')
   \<and> (\<forall>name. name \<noteq> ''portaudio'' \<longrightarrow>
         find_library (snd (new_SoundDevicePatcher s)) name = find_library s name)
   \<and> find_library (restore_library (fst (new_SoundDevicePatcher s)) (snd (new_SoundDevicePatcher s)))
       = find_library s
   \<and> (\<forall>s'. find_library (restore_library (fst (new_SoundDevicePatcher s)) s') = find_library s)"
  by (simp add: new_SoundDevicePatcher_def patch_library_def restore_library_def
        find_library_patched_def Let_def)

theorem sound_device_patch_then_restore_witness:
  "find_library (snd (new_SoundDevicePatcher bare_interpreter)) ''portaudio'' = Inr (Some ''libportaudio.so.2'')
   \<and> find_library bare_interpreter ''portaudio'' = Inr None
   \<and> find_library (snd (new_SoundDevicePatcher bare_interpreter)) ''c'' = Inr (Some ''libc.so.6'')
   \<and> find_library (restore_library (fst (new_SoundDevicePatcher bare_interpreter))
        (snd (new_SoundDevicePatcher bare_interpreter))) ''portaudio'' = Inr None"
proof -
  note t = sound_device_patch_then_restore [of bare_interpreter]
  have orig: "find_library bare_interpreter ''portaudio'' = Inr None"
    "find_library bare_interpreter ''c'' = Inr (Some ''libc.so.6'')"
    by (simp_all add: bare_interpreter_def)
  have "''c'' \<noteq> ''portaudio''" by simp
  with t have "find_library (snd (new_SoundDevicePatcher bare_interpreter)) ''c''
                 = find_library bare_interpreter ''c''"
    by blast
  with t orig show ?thesis by simp
qed

section \<open>The version gate of the Pye3D plugin\<close>

text \<open>
  Claim C10. Once the import statements of the plugin module have succeeded, running
  the module raises \<open>ImportError\<close> whenever the installed version of \<open>pye3d\<close> is not
  "0.0.4"; a \<open>pye3d\<close> without \<open>__version__\<close> counts as "0.0.1" and is rejected too.
  With version "0.0.4" the module body completes and defines \<open>Pye3DPlugin\<close>, and a
  completed import always comes from that version.
\<close>

theorem pye3d_version_gate:
  "(version_installed pye3d \<noteq> ''0.0.4'' \<longrightarrow>
      fst (import_pye3d_plugin (Inr pye3d) s) = Inl (ImportError ''Unsupported version found''))
   \<and> (version_attr pye3d = None \<longrightarrow>
        version_installed pye3d = ''0.0.1''
        \<and> fst (import_pye3d_plugin (Inr pye3d) s) = Inl (ImportError ''Unsupported version found''))
   \<and> (version_installed pye3d = ''0.0.4'' \<longrightarrow>
        (\<exists>ns. fst (import_pye3d_plugin (Inr pye3d) s) = Inr ns \<and> ''Pye3DPlugin'' \<in> set (ns_classes ns)))
   \<and> (\<forall>ns. fst (import_pye3d_plugin imported s) = Inr ns \<longrightarrow>
        (\<exists>m. imported = Inr m \<and> version_installed m = ''0.0.4''))"
  by (cases imported)
     (auto simp: import_pye3d_plugin_def version_installed_def version_supported_def split: if_splits)

theorem pye3d_version_gate_witness:
  "fst (import_pye3d_plugin (Inr \<lparr> version_attr = Some ''0.0.5'' \<rparr>) bare_interpreter)
     = Inl (ImportError ''Unsupported version found'')
   \<and> fst (import_pye3d_plugin (Inr \<lparr> version_attr = None \<rparr>) bare_interpreter)
     = Inl (ImportError ''Unsupported version found'')
   \<and> (\<exists>ns. fst (import_pye3d_plugin (Inr \<lparr> version_attr = Some ''0.0.4'' \<rparr>) bare_interpreter) = Inr ns
          \<and> ''Pye3DPlugin'' \<in> set (ns_classes ns))"
proof -
  have "version_installed \<lparr> version_attr = Some ''0.0.5'' \<rparr> \<noteq> ''0.0.4''"
    by (simp add: version_installed_def)
  with pye3d_version_gate [of "\<lparr> version_attr = Some ''0.0.5'' \<rparr>" bare_interpreter]
  have newer: "fst (import_pye3d_plugin (Inr \<lparr> version_attr = Some ''0.0.5'' \<rparr>) bare_interpreter)
     = Inl (ImportError ''Unsupported version found'')"
    by blast
  have "version_attr \<lparr> version_attr = None \<rparr> = None" by simp
  with pye3d_version_gate [of "\<lparr> version_attr = None \<rparr>" bare_interpreter]
  have none: "fst (import_pye3d_plugin (Inr \<lparr> version_attr = None \<rparr>) bare_interpreter)
     = Inl (ImportError ''Unsupported version found'')"
    by blast
  have "version_installed \<lparr> version_attr = Some ''0.0.4'' \<rparr> = ''0.0.4''"
    by (simp add: version_installed_def)
  with pye3d_version_gate [of "\<lparr> version_attr = Some ''0.0.4'' \<rparr>" bare_interpreter]
  have same: "\<exists>ns. fst (import_pye3d_plugin (Inr \<lparr> version_attr = Some ''0.0.4'' \<rparr>) bare_interpreter) = Inr ns
          \<and> ''Pye3DPlugin'' \<in> set (ns_classes ns)"
    by blast
  from newer none same show ?thesis by simp
qed

end
